theory Spec2Isabelle
  imports Main "HOL-Library.Word"
begin

unbundle bit_operations_syntax

section \<open>JavaScript numbers and bitwise operators\<close>

text \<open>
  The samples handled by \<open>tts_sarvam.js\<close> are integer-valued JavaScript numbers of small
  magnitude, on which \<open>+\<close>, unary \<open>-\<close> and the comparisons are exact; they are modelled
  as \<open>int\<close>. The bitwise operators of JavaScript first convert each operand with ToInt32
  (reduction modulo \<open>2^32\<close> into the signed range), and a shift uses the low five bits of
  its count. Each operator is written out below with that conversion.
\<close>

definition toInt32 :: "int \<Rightarrow> int" where
  "toInt32 x = signed_take_bit 31 x"

definition js_shr :: "int \<Rightarrow> int \<Rightarrow> int" where
  "js_shr a n = drop_bit (nat (n mod 32)) (toInt32 a)"

definition js_shl :: "int \<Rightarrow> int \<Rightarrow> int" where
  "js_shl a n = toInt32 (push_bit (nat (n mod 32)) (toInt32 a))"

definition js_and :: "int \<Rightarrow> int \<Rightarrow> int" where
  "js_and a b = toInt32 a AND toInt32 b"

definition js_or :: "int \<Rightarrow> int \<Rightarrow> int" where
  "js_or a b = toInt32 a OR toInt32 b"

definition js_not :: "int \<Rightarrow> int" where
  "js_not a = NOT (toInt32 a)"

section \<open>The mu-law encoder\<close>

definition BIAS :: int where
  "BIAS = 0x84"

definition CLIP :: int where
  "CLIP = 32635"

text \<open>
  The \<open>for\<close> loop of \<open>encodeMuLaw\<close>: \<open>exp\<close> runs from its start value up to 7, and the
  first \<open>exp\<close> with \<open>sample < (1 << (exp + 5))\<close> is assigned to \<open>exponent\<close> before the
  \<open>break\<close>; when no \<open>exp\<close> qualifies \<open>exponent\<close> keeps the value it had.
\<close>

function exponent_loop :: "int \<Rightarrow> int \<Rightarrow> int \<Rightarrow> int" where
  "exponent_loop sample exp exponent =
     (if exp < 8
      then (if sample < js_shl 1 (exp + 5) then exp
            else exponent_loop sample (exp + 1) exponent)
      else exponent)"
  by pat_completeness auto
termination
  by (relation "measure (\<lambda>(sample, exp, exponent). nat (8 - exp))") auto

declare exponent_loop.simps [simp del]

text \<open>
  The chain of \<open>if\<close>/\<open>else if\<close> statements that follows the loop. It is a statement acting
  on the variable \<open>exponent\<close>, so the model takes the value the variable holds on entry
  and yields the value it holds on exit.
\<close>

definition threshold_chain :: "int \<Rightarrow> int \<Rightarrow> int" where
  "threshold_chain sample exponent =
     (if sample > 0x7FFF then 7
      else if sample > 0x3FFF then 6
      else if sample > 0x1FFF then 5
      else if sample > 0x0FFF then 4
      else if sample > 0x07FF then 3
      else if sample > 0x03FF then 2
      else if sample > 0x01FF then 1
      else 0)"

definition encodeMuLaw :: "int \<Rightarrow> int" where
  "encodeMuLaw sample0 =
     (let sign = js_and (js_shr sample0 8) 0x80;
          sample = (if sign \<noteq> 0 then - sample0 else sample0);
          sample = (if sample > CLIP then CLIP else sample);
          sample = sample + BIAS;
          exponent = 7;
          exponent = exponent_loop sample 0 exponent;
          exponent = threshold_chain sample exponent;
          mantissa = js_and (js_shr sample (exponent + 3)) 0x0F;
          ulawbyte = js_not (js_or (js_or sign (js_shl exponent 4)) mantissa)
      in js_and ulawbyte 0xFF)"

text \<open>
  \<open>encodeMuLaw\<close> with the initial assignment \<open>exponent = 7\<close> and the \<open>for\<close> loop removed.
  The variable \<open>exponent\<close> is then still unassigned when the chain starts; the chain is
  given an arbitrary entry value \<open>e0\<close> for it.
\<close>

definition encodeMuLaw_noloop :: "int \<Rightarrow> int \<Rightarrow> int" where
  "encodeMuLaw_noloop e0 sample0 =
     (let sign = js_and (js_shr sample0 8) 0x80;
          sample = (if sign \<noteq> 0 then - sample0 else sample0);
          sample = (if sample > CLIP then CLIP else sample);
          sample = sample + BIAS;
          exponent = threshold_chain sample e0;
          mantissa = js_and (js_shr sample (exponent + 3)) 0x0F;
          ulawbyte = js_not (js_or (js_or sign (js_shl exponent 4)) mantissa)
      in js_and ulawbyte 0xFF)"

text \<open>
  The algorithm as the specification words it (section 4.4), step by step: sign,
  negation of negative samples, clip, bias, segment thresholds, mantissa, inverted byte.
\<close>

definition spec_sign :: "int \<Rightarrow> int" where
  "spec_sign s = (if s < 0 then 0x80 else 0)"

definition spec_magnitude :: "int \<Rightarrow> int" where
  "spec_magnitude s = (if s < 0 then - s else s)"

definition spec_biased :: "int \<Rightarrow> int" where
  "spec_biased s = min (spec_magnitude s) 32635 + 132"

definition spec_exponent :: "int \<Rightarrow> int" where
  "spec_exponent m =
     (if m > 0x7FFF then 7 else if m > 0x3FFF then 6 else if m > 0x1FFF then 5
      else if m > 0x0FFF then 4 else if m > 0x07FF then 3 else if m > 0x03FF then 2
      else if m > 0x01FF then 1 else 0)"

definition spec_mantissa :: "int \<Rightarrow> int \<Rightarrow> int" where
  "spec_mantissa m e = js_and (js_shr m (e + 3)) 0x0F"

definition spec_encode :: "int \<Rightarrow> int" where
  "spec_encode s =
     (let m = spec_biased s; e = spec_exponent m
      in js_and (js_not (js_or (js_or (spec_sign s) (js_shl e 4)) (spec_mantissa m e))) 0xFF)"

section \<open>Buffers and the format sniffer\<close>

type_synonym byte = "8 word"
type_synonym buffer = "byte list"
type_synonym int16 = "16 word"

text \<open>
  Reading \<open>buffer[i]\<close> never throws in JavaScript: past the end the value is
  \<open>undefined\<close>, here \<open>None\<close>. A strict comparison of \<open>undefined\<close> with a number is
  false, and ToInt32 of \<open>undefined\<close> is 0.
\<close>

definition byte_at :: "buffer \<Rightarrow> nat \<Rightarrow> byte option" where
  "byte_at buffer i = (if i < length buffer then Some (buffer ! i) else None)"

definition number_of_elem :: "byte option \<Rightarrow> int" where
  "number_of_elem x = (case x of Some b \<Rightarrow> uint b | None \<Rightarrow> 0)"

definition detectAudioFormat :: "buffer \<Rightarrow> string" where
  "detectAudioFormat buffer =
     (if length buffer < 4 then ''unknown''
      else if byte_at buffer 0 = Some 0x49 \<and> byte_at buffer 1 = Some 0x44
              \<and> byte_at buffer 2 = Some 0x33 then ''mp3''
      else if byte_at buffer 0 = Some 0xFF
              \<and> js_and (number_of_elem (byte_at buffer 1)) 0xE0 = 0xE0 then ''mp3''
      else if byte_at buffer 0 = Some 0x52 \<and> byte_at buffer 1 = Some 0x49
              \<and> byte_at buffer 2 = Some 0x46 \<and> byte_at buffer 3 = Some 0x46 then ''wav''
      else ''s16le'')"

section \<open>The encoding loop\<close>

text \<open>
  \<open>Buffer.alloc(length)\<close> is a zero-filled buffer; storing a number into a buffer cell
  keeps its low eight bits. The loop of \<open>convertToUlaw\<close> runs \<open>i\<close> over the indices of
  \<open>samples\<close>, whose elements come from an \<open>Int16Array\<close> and are read as signed numbers.
\<close>

definition store_byte :: "buffer \<Rightarrow> nat \<Rightarrow> int \<Rightarrow> buffer" where
  "store_byte ulawBuffer i v = ulawBuffer[i := word_of_int v]"

function encode_loop :: "int16 list \<Rightarrow> nat \<Rightarrow> buffer \<Rightarrow> buffer" where
  "encode_loop samples i ulawBuffer =
     (if i < length samples
      then encode_loop samples (i + 1)
             (store_byte ulawBuffer i (encodeMuLaw (sint (samples ! i))))
      else ulawBuffer)"
  by pat_completeness auto
termination
  by (relation "measure (\<lambda>(samples, i, ulawBuffer). length samples - i)") auto

declare encode_loop.simps [simp del]

definition encode_samples :: "int16 list \<Rightarrow> buffer" where
  "encode_samples samples = encode_loop samples 0 (replicate (length samples) 0)"

section \<open>The environment of the transcoder\<close>

text \<open>
  The \<open>wavefile\<close> package, \<open>child_process.spawn\<close> with the \<open>ffmpeg\<close> executable, the
  HTTP client, the base64 decoder and the process environment are not part of the
  repository. They are parameters of the model: a record of functions that says what each
  call returns or throws. Every theorem below holds for all such records.
\<close>

datatype js_error = Error (message: string)

text \<open>
  What \<open>getSamples(false, Int16Array)\<close> returns: one typed array, or for several channels
  an array of typed arrays.
\<close>

datatype samples = Mono "int16 list" | Multi "int16 list list"

text \<open>
  The first event of the child process that settles the promise: an \<open>error\<close> event, a
  \<open>close\<close> event with the exit code (\<open>null\<close>, here \<open>None\<close>, when a signal ended the
  process) together with the chunks read from stdout and the text read from stderr, or an
  exception thrown by a statement of the promise executor itself.
\<close>

datatype child_outcome =
    ErrorEvent string
  | Close "int option" "buffer list" string
  | ExecutorThrows js_error

record http_response =
  ok :: bool
  status :: nat
  statusText :: string
  text_body :: "js_error + string"
  json_audios :: "js_error + string list option"

record http_request =
  req_url :: string
  req_api_key :: string
  req_inputs :: "string list"
  req_target_language_code :: string
  req_speaker :: string
  req_model :: string
  req_enable_preprocessing :: bool

text \<open>
  A method of a \<open>WaveFile\<close> object changes the object and may throw: the model returns
  the exception, if any, and the state the object is left in.
\<close>

record 'w system =
  new_WaveFile :: "'w"
  fromBuffer :: "'w \<Rightarrow> buffer \<Rightarrow> js_error option \<times> 'w"
  fromScratch :: "'w \<Rightarrow> int \<Rightarrow> int \<Rightarrow> string \<Rightarrow> buffer \<Rightarrow> js_error option \<times> 'w"
  fmt_sampleRate :: "'w \<Rightarrow> int"
  toSampleRate :: "'w \<Rightarrow> int \<Rightarrow> js_error option \<times> 'w"
  getSamples :: "'w \<Rightarrow> js_error + samples"
  spawn :: "string \<Rightarrow> string list \<Rightarrow> buffer \<Rightarrow> child_outcome"
  SARVAM_API_KEY :: "string option"
  SARVAM_TTS_LANGUAGE :: "string option"
  SARVAM_TTS_SPEAKER :: "string option"
  SARVAM_TTS_FORMAT :: "string option"
  nodeFetch :: "http_request \<Rightarrow> js_error + http_response"
  base64_decode :: "string \<Rightarrow> buffer"

text \<open>The calls a run makes to its environment, in order.\<close>

datatype event =
    WavFromBuffer buffer
  | WavFromScratch int int string buffer
  | WavToSampleRate int
  | WavGetSamples
  | Spawn string "string list" buffer
  | Fetch http_request

text \<open>How a promise settles, and how a block of statements completes.\<close>

datatype promise = Resolved buffer | Rejected js_error

datatype completion = Returns promise | Throws js_error

section \<open>Number formatting\<close>

function show_nat :: "nat \<Rightarrow> string" where
  "show_nat n =
     (if n < 10 then [''0123456789'' ! n]
      else show_nat (n div 10) @ [''0123456789'' ! (n mod 10)])"
  by pat_completeness auto
termination
  by (relation "measure id") auto

declare show_nat.simps [simp del]

definition show_code :: "int option \<Rightarrow> string" where
  "show_code code =
     (case code of None \<Rightarrow> ''null''
      | Some c \<Rightarrow> (if c < 0 then ''-'' @ show_nat (nat (- c)) else show_nat (nat c)))"

section \<open>convertToUlaw\<close>

text \<open>
  Lines 157 to 171: the \<open>WaveFile\<close> object is loaded from the buffer. Only for the source
  format \<open>unknown\<close> is an exception of \<open>fromBuffer\<close> caught and answered by
  \<open>fromScratch(1, 24000, '16', audioBuffer)\<close>.
\<close>

definition load_wav :: "'w system \<Rightarrow> buffer \<Rightarrow> string \<Rightarrow> event list \<times> (js_error + 'w)" where
  "load_wav sys audioBuffer sourceFormat =
     (let wav = new_WaveFile sys in
      if sourceFormat = ''wav'' then
        (case fromBuffer sys wav audioBuffer of
           (None, wav) \<Rightarrow> ([WavFromBuffer audioBuffer], Inr wav)
         | (Some e, wav) \<Rightarrow> ([WavFromBuffer audioBuffer], Inl e))
      else
        (case fromBuffer sys wav audioBuffer of
           (None, wav) \<Rightarrow> ([WavFromBuffer audioBuffer], Inr wav)
         | (Some e, wav) \<Rightarrow>
             (case fromScratch sys wav 1 24000 ''16'' audioBuffer of
                (None, wav) \<Rightarrow>
                  ([WavFromBuffer audioBuffer, WavFromScratch 1 24000 ''16'' audioBuffer],
                   Inr wav)
              | (Some e', wav) \<Rightarrow>
                  ([WavFromBuffer audioBuffer, WavFromScratch 1 24000 ''16'' audioBuffer],
                   Inl e'))))"

text \<open>Lines 177 to 180: \<open>toSampleRate(8000)\<close> is called only when the rate is not 8000.\<close>

definition resample_if_needed :: "'w system \<Rightarrow> 'w \<Rightarrow> event list \<times> (js_error + 'w)" where
  "resample_if_needed sys wav =
     (if fmt_sampleRate sys wav \<noteq> 8000 then
        (case toSampleRate sys wav 8000 of
           (None, wav) \<Rightarrow> ([WavToSampleRate 8000], Inr wav)
         | (Some e, wav) \<Rightarrow> ([WavToSampleRate 8000], Inl e))
      else ([], Inr wav))"

text \<open>Lines 188 to 192: of an array of channels, the first channel is kept.\<close>

definition first_channel :: "samples \<Rightarrow> int16 list" where
  "first_channel s =
     (case s of Mono xs \<Rightarrow> xs | Multi [] \<Rightarrow> [] | Multi (c # cs) \<Rightarrow> c)"

text \<open>The inner \<open>try\<close> block, lines 156 to 205; \<open>Inl\<close> is the exception it ends with.\<close>

definition wavefile_path :: "'w system \<Rightarrow> buffer \<Rightarrow> string \<Rightarrow> event list \<times> (js_error + buffer)" where
  "wavefile_path sys audioBuffer sourceFormat =
     (case load_wav sys audioBuffer sourceFormat of
        (ev1, Inl e) \<Rightarrow> (ev1, Inl e)
      | (ev1, Inr wav) \<Rightarrow>
          (case resample_if_needed sys wav of
             (ev2, Inl e) \<Rightarrow> (ev1 @ ev2, Inl e)
           | (ev2, Inr wav) \<Rightarrow>
               (case getSamples sys wav of
                  Inl e \<Rightarrow> (ev1 @ ev2 @ [WavGetSamples], Inl e)
                | Inr samples \<Rightarrow>
                    (ev1 @ ev2 @ [WavGetSamples],
                     Inr (encode_samples (first_channel samples))))))"

definition ffmpegArgs :: "string \<Rightarrow> string list" where
  "ffmpegArgs sourceFormat =
     (if sourceFormat = ''s16le'' then
        [''-f'', ''s16le'', ''-ar'', ''24000'', ''-ac'', ''1'', ''-i'', ''pipe:0'',
         ''-ar'', ''8000'', ''-ac'', ''1'', ''-acodec'', ''pcm_mulaw'', ''-f'', ''mulaw'',
         ''-loglevel'', ''error'', ''pipe:1'']
      else
        [''-i'', ''pipe:0'',
         ''-ar'', ''8000'', ''-ac'', ''1'', ''-acodec'', ''pcm_mulaw'', ''-f'', ''mulaw'',
         ''-af'', ''volume=2.0'',
         ''-loglevel'', ''error'', ''pipe:1''])"

text \<open>
  The handlers of lines 247 to 263 and the executor of the promise: the promise resolves
  with the concatenated chunks when the process closes with code 0, and is rejected
  otherwise.
\<close>

definition settle :: "child_outcome \<Rightarrow> promise" where
  "settle outcome =
     (case outcome of
        Close code chunks stderrOutput \<Rightarrow>
          (if code = Some 0 then Resolved (concat chunks)
           else Rejected (Error (''ffmpeg exited with code '' @ show_code code @ '': ''
                                 @ stderrOutput)))
      | ErrorEvent msg \<Rightarrow> Rejected (Error (''ffmpeg process error: '' @ msg))
      | ExecutorThrows e \<Rightarrow> Rejected e)"

definition ffmpeg_path :: "'w system \<Rightarrow> buffer \<Rightarrow> string \<Rightarrow> event list \<times> promise" where
  "ffmpeg_path sys audioBuffer sourceFormat =
     (let args = ffmpegArgs sourceFormat in
      ([Spawn ''ffmpeg'' args audioBuffer], settle (spawn sys ''ffmpeg'' args audioBuffer)))"

text \<open>
  The body of the outer \<open>try\<close>, lines 151 to 268. An exception of the inner \<open>try\<close> block is
  caught at line 206 and only logged, and control goes on to line 218, where loading the
  built-in module \<open>child_process\<close> does not throw. The promise built at line 219 is
  returned without \<open>await\<close>, so the block completes normally with it whatever way the
  promise settles later; an exception inside the executor rejects that promise.
\<close>

definition convertToUlaw_try :: "'w system \<Rightarrow> buffer \<Rightarrow> string \<Rightarrow> event list \<times> completion" where
  "convertToUlaw_try sys audioBuffer sourceFormat =
     (let (ev1, returned) =
            (if sourceFormat = ''wav'' \<or> sourceFormat = ''unknown'' then
               (case wavefile_path sys audioBuffer sourceFormat of
                  (ev, Inr ulawBuffer) \<Rightarrow> (ev, Some ulawBuffer)
                | (ev, Inl waveError) \<Rightarrow> (ev, None))
             else ([], None))
      in case returned of
           Some ulawBuffer \<Rightarrow> (ev1, Returns (Resolved ulawBuffer))
         | None \<Rightarrow>
             (let (ev2, p) = ffmpeg_path sys audioBuffer sourceFormat
              in (ev1 @ ev2, Returns p)))"

text \<open>
  The \<open>async\<close> function: the \<open>catch\<close> of line 270 handles what the \<open>try\<close> body throws;
  a returned promise settles the result as it is.
\<close>

definition convertToUlaw :: "'w system \<Rightarrow> buffer \<Rightarrow> string \<Rightarrow> event list \<times> promise" where
  "convertToUlaw sys audioBuffer sourceFormat =
     (case convertToUlaw_try sys audioBuffer sourceFormat of
        (ev, Returns p) \<Rightarrow> (ev, p)
      | (ev, Throws error) \<Rightarrow>
          (ev, Rejected (Error (''Audio format conversion failed: '' @ message error))))"

section \<open>sarvamTTS\<close>

text \<open>
  The values an option of the caller may hold, and JavaScript's truthiness of them.
\<close>

datatype jsval = JUndefined | JNull | JBool bool | JNumber int | JString string

definition truthy :: "jsval \<Rightarrow> bool" where
  "truthy v =
     (case v of JUndefined \<Rightarrow> False | JNull \<Rightarrow> False | JBool b \<Rightarrow> b
      | JNumber n \<Rightarrow> n \<noteq> 0 | JString s \<Rightarrow> s \<noteq> [])"

record options =
  language :: "string option"
  speaker :: "string option"
  format :: "string option"
  skipConversion :: jsval

text \<open>\<open>a || b || c\<close> on strings that may be \<open>undefined\<close>: the empty string is falsy.\<close>

fun first_truthy :: "string option list \<Rightarrow> string \<Rightarrow> string" where
  "first_truthy [] d = d"
| "first_truthy (None # xs) d = first_truthy xs d"
| "first_truthy (Some s # xs) d = (if s \<noteq> [] then s else first_truthy xs d)"

text \<open>The method \<open>includes\<close> of JavaScript strings.\<close>

fun str_includes :: "string \<Rightarrow> string \<Rightarrow> bool" where
  "str_includes [] sub = (sub = [])"
| "str_includes (c # cs) sub = (take (length sub) (c # cs) = sub \<or> str_includes cs sub)"

text \<open>\<open>jsonResponse.audios && jsonResponse.audios[0]\<close>, \<open>None\<close> when the value is falsy.\<close>

definition base64Audio_of :: "string list option \<Rightarrow> string option" where
  "base64Audio_of audios =
     (case audios of None \<Rightarrow> None | Some [] \<Rightarrow> None
      | Some (a # rest) \<Rightarrow> (if a = [] then None else Some a))"

definition build_request :: "'w system \<Rightarrow> string \<Rightarrow> string \<Rightarrow> options \<Rightarrow> http_request" where
  "build_request sys apiKey text opts =
     \<lparr> req_url = ''https://api.sarvam.ai/text-to-speech'',
       req_api_key = apiKey,
       req_inputs = [text],
       req_target_language_code =
         first_truthy [language opts, SARVAM_TTS_LANGUAGE sys] ''en-IN'',
       req_speaker = first_truthy [speaker opts, SARVAM_TTS_SPEAKER sys] ''anushka'',
       req_model = ''bulbul:v2'',
       req_enable_preprocessing = True \<rparr>"

text \<open>The body of the \<open>try\<close> of \<open>sarvamTTS\<close>, lines 20 to 98.\<close>

definition sarvamTTS_try :: "'w system \<Rightarrow> string \<Rightarrow> options \<Rightarrow> event list \<times> completion" where
  "sarvamTTS_try sys text opts =
     (case SARVAM_API_KEY sys of
        None \<Rightarrow> ([], Throws (Error ''SARVAM_API_KEY not configured in environment variables''))
      | Some apiKey \<Rightarrow>
          if apiKey = [] then
            ([], Throws (Error ''SARVAM_API_KEY not configured in environment variables''))
          else
            (let request = build_request sys apiKey text opts in
             case nodeFetch sys request of
               Inl e \<Rightarrow> ([Fetch request], Throws e)
             | Inr response \<Rightarrow>
                 if \<not> ok response then
                   (case text_body response of
                      Inl e \<Rightarrow> ([Fetch request], Throws e)
                    | Inr errorText \<Rightarrow>
                        ([Fetch request],
                         Throws (Error (''Sarvam API error: '' @ show_nat (status response)
                                        @ '' - '' @ statusText response))))
                 else
                   (case json_audios response of
                      Inl e \<Rightarrow> ([Fetch request], Throws e)
                    | Inr audios \<Rightarrow>
                        (case base64Audio_of audios of
                           None \<Rightarrow>
                             ([Fetch request],
                              Throws (Error ''No audio data in Sarvam response''))
                         | Some base64Audio \<Rightarrow>
                             (let audioBuffer = base64_decode sys base64Audio;
                                  actualFormat = detectAudioFormat audioBuffer
                              in if truthy (skipConversion opts) then
                                   ([Fetch request], Returns (Resolved audioBuffer))
                                 else
                                   (case convertToUlaw sys audioBuffer actualFormat of
                                      (ev, Resolved ulawBuffer) \<Rightarrow>
                                        (Fetch request # ev, Returns (Resolved ulawBuffer))
                                    | (ev, Rejected e) \<Rightarrow>
                                        (Fetch request # ev, Throws e)))))))"

text \<open>The \<open>catch\<close> of lines 100 to 115: some messages are replaced, the rest rethrown.\<close>

definition sarvamTTS_catch :: "js_error \<Rightarrow> js_error" where
  "sarvamTTS_catch error =
     (if str_includes (message error) ''SARVAM_API_KEY'' then
        Error ''Sarvam API key is missing. Please set SARVAM_API_KEY in your environment variables.''
      else if str_includes (message error) ''ENOTFOUND'' \<or> str_includes (message error) ''ETIMEDOUT'' then
        Error ''Network error: Unable to reach Sarvam API. Please check your internet connection.''
      else if str_includes (message error) ''401'' then
        Error ''Authentication failed: Invalid Sarvam API key.''
      else if str_includes (message error) ''429'' then
        Error ''Rate limit exceeded: Too many requests to Sarvam API.''
      else error)"

definition sarvamTTS :: "'w system \<Rightarrow> string \<Rightarrow> options \<Rightarrow> event list \<times> promise" where
  "sarvamTTS sys text opts =
     (case sarvamTTS_try sys text opts of
        (ev, Returns p) \<Rightarrow> (ev, p)
      | (ev, Throws error) \<Rightarrow> (ev, Rejected (sarvamTTS_catch error)))"

text \<open>Which events are calls into the transcoding pipeline.\<close>

fun is_wavefile_call :: "event \<Rightarrow> bool" where
  "is_wavefile_call (WavFromBuffer b) = True"
| "is_wavefile_call (WavFromScratch c r d b) = True"
| "is_wavefile_call (WavToSampleRate r) = True"
| "is_wavefile_call WavGetSamples = True"
| "is_wavefile_call (Spawn c a b) = False"
| "is_wavefile_call (Fetch r) = False"

fun is_ffmpeg_call :: "event \<Rightarrow> bool" where
  "is_ffmpeg_call (Spawn c a b) = (c = ''ffmpeg'')"
| "is_ffmpeg_call e = False"

fun is_resample_call :: "event \<Rightarrow> bool" where
  "is_resample_call (WavToSampleRate r) = True"
| "is_resample_call e = False"

fun is_fromScratch_call :: "event \<Rightarrow> bool" where
  "is_fromScratch_call (WavFromScratch c r d b) = True"
| "is_fromScratch_call e = False"

text \<open>The argument lists of the processes a run spawns, in order.\<close>

fun spawn_args :: "event list \<Rightarrow> (string \<times> string list) list" where
  "spawn_args [] = []"
| "spawn_args (Spawn c a b # evs) = (c, a) # spawn_args evs"
| "spawn_args (e # evs) = spawn_args evs"

text \<open>
  The output options every argument list of \<open>convertToUlaw\<close> contains: sample rate
  8000 Hz, one channel, codec and container mu-law.
\<close>

definition output_options :: "string list" where
  "output_options =
     [''-ar'', ''8000'', ''-ac'', ''1'', ''-acodec'', ''pcm_mulaw'', ''-f'', ''mulaw'']"

section \<open>A concrete environment\<close>

text \<open>
  A small environment on which the theorems below are instantiated. Its \<open>WaveFile\<close>
  object is a pair of a sample rate and a sample list; \<open>fromBuffer\<close> rejects what is
  shorter than a 44-byte header or does not start with \<open>RIFF\<close>, and otherwise reads the
  rate from bytes 24 and 25 and yields two samples of silence; \<open>ffmpeg\<close> exits with
  code 1; the provider answers with one audio string, decoded to four bytes.
\<close>

definition riff :: buffer where
  "riff = [0x52, 0x49, 0x46, 0x46]"

definition id3 :: buffer where
  "id3 = [0x49, 0x44, 0x33, 0x04]"

definition wav8k :: buffer where
  "wav8k = riff @ replicate 20 0 @ [0x40, 0x1F] @ replicate 18 0"

definition stub_fromBuffer :: "int \<times> int16 list \<Rightarrow> buffer \<Rightarrow> js_error option \<times> (int \<times> int16 list)" where
  "stub_fromBuffer wav b =
     (if 44 \<le> length b \<and> take 4 b = riff
      then (None, (uint (b ! 24) + 256 * uint (b ! 25), [0, 0]))
      else (Some (Error ''Not a supported format.''), wav))"

definition stub_response :: http_response where
  "stub_response =
     \<lparr> ok = True, status = 200, statusText = ''OK'', text_body = Inr [],
       json_audios = Inr (Some [''SUQzBA=='']) \<rparr>"

definition stub_system :: "(int \<times> int16 list) system" where
  "stub_system =
     \<lparr> new_WaveFile = (0, []),
       fromBuffer = stub_fromBuffer,
       fromScratch = (\<lambda>wav numChannels rate depth b. (None, (rate, []))),
       fmt_sampleRate = fst,
       toSampleRate = (\<lambda>wav rate. (None, (rate, snd wav))),
       getSamples = (\<lambda>wav. Inr (Mono (snd wav))),
       spawn = (\<lambda>c a b. Close (Some 1) [] ''Invalid data found when processing input''),
       SARVAM_API_KEY = Some ''test-key'',
       SARVAM_TTS_LANGUAGE = None,
       SARVAM_TTS_SPEAKER = None,
       SARVAM_TTS_FORMAT = None,
       nodeFetch = (\<lambda>request. Inr stub_response),
       base64_decode = (\<lambda>s. id3) \<rparr>"

definition stub_options :: options where
  "stub_options =
     \<lparr> language = None, speaker = None, format = None, skipConversion = JBool True \<rparr>"

section \<open>Properties of the encoder\<close>

lemma toInt32_small: "- (2 ^ 31) \<le> x \<Longrightarrow> x < 2 ^ 31 \<Longrightarrow> toInt32 x = x"
  unfolding toInt32_def by (rule signed_take_bit_int_eq_self)

lemma and_pow2_int: "(k::int) AND 2 ^ n = (if bit k n then 2 ^ n else 0)"
  by (rule bit_eqI) (auto simp add: bit_simps)

text \<open>
  On a signed 16-bit sample, \<open>(sample >> 8) & 0x80\<close> is \<open>0x80\<close> exactly when the sample
  is negative.
\<close>

lemma sign_bit_int16:
  assumes "- 32768 \<le> s" "s \<le> 32767"
  shows "js_and (js_shr s 8) 0x80 = spec_sign s"
proof -
  have s32: "toInt32 s = s" using assms by (intro toInt32_small) simp_all
  define k where "k = s div 256"
  have kb: "- 128 \<le> k" "k \<le> 127" using assms unfolding k_def by simp_all
  have shr: "js_shr s 8 = k" by (simp add: js_shr_def s32 drop_bit_eq_div k_def)
  have k32: "toInt32 k = k" using kb by (intro toInt32_small) simp_all
  have c32: "toInt32 128 = 128" by (intro toInt32_small) simp_all
  have "k div 128 = (if s < 0 then - 1 else 0)" using kb assms unfolding k_def by auto
  then have b7: "bit k 7 \<longleftrightarrow> s < 0" by (simp add: bit_iff_odd)
  have "k AND 128 = (if bit k 7 then 128 else 0)" using and_pow2_int [of k 7] by simp
  then show ?thesis by (simp add: shr js_and_def k32 c32 b7 spec_sign_def)
qed

text \<open>
  Claim C1. For every signed 16-bit sample, \<open>encodeMuLaw\<close> computes the byte that the
  algorithm of section 4.4 of the specification describes: sign \<open>0x80\<close> for a negative
  sample, which is then negated; magnitude clipped to 32635; bias 132 added; exponent from
  the thresholds \<open>> 0x7FFF\<close> gives 7 down to \<open>> 0x01FF\<close> gives 1, else 0; mantissa
  \<open>(biased >> (exponent + 3)) & 0x0F\<close>; result the complement of
  \<open>sign | exponent << 4 | mantissa\<close>, masked to eight bits.
\<close>

theorem encodeMuLaw_implements_spec:
  assumes "- 32768 \<le> s" "s \<le> 32767"
  shows "encodeMuLaw s = spec_encode s"
proof -
  have sg: "js_and (js_shr s 8) 0x80 = spec_sign s" using assms by (rule sign_bit_int16)
  have neg: "(spec_sign s \<noteq> 0) = (s < 0)" by (simp add: spec_sign_def)
  show ?thesis
    unfolding encodeMuLaw_def spec_encode_def Let_def sg neg
    by (simp add: spec_biased_def spec_magnitude_def spec_mantissa_def spec_exponent_def
        threshold_chain_def CLIP_def BIAS_def min_def)
qed

lemmas js_bitops = js_and_def js_shr_def js_or_def js_not_def js_shl_def toInt32_def

theorem encodeMuLaw_implements_spec_witness:
  "- 32768 \<le> (- 1000 :: int) \<and> (- 1000 :: int) \<le> 32767
   \<and> encodeMuLaw (- 1000) = spec_encode (- 1000) \<and> spec_encode (- 1000) = 92"
proof -
  have "spec_encode (- 1000) = 92"
    by (simp add: spec_encode_def spec_biased_def spec_magnitude_def spec_mantissa_def
        spec_exponent_def spec_sign_def Let_def js_bitops)
  then show ?thesis using encodeMuLaw_implements_spec [of "- 1000"] by simp
qed

lemma encodeMuLaw_0: "encodeMuLaw 0 = 255"
  by (simp add: encodeMuLaw_def Let_def js_bitops BIAS_def CLIP_def threshold_chain_def)

text \<open>
  The encoding loop fills cell \<open>i\<close> with the code of sample \<open>i\<close>; cells below \<open>i\<close> are
  left as they are. Proved along the recursion of the loop.
\<close>

lemma encode_loop_gen:
  "length buf = length samples \<Longrightarrow> i \<le> length samples \<Longrightarrow>
   encode_loop samples i buf =
     take i buf @ map (\<lambda>s. word_of_int (encodeMuLaw (sint s))) (drop i samples)"
proof (induction samples i buf rule: encode_loop.induct)
  case (1 samples i ulawBuffer)
  show ?case
  proof (cases "i < length samples")
    case True
    let ?b = "store_byte ulawBuffer i (encodeMuLaw (sint (samples ! i)))"
    have len: "length ?b = length samples" using "1.prems" by (simp add: store_byte_def)
    have "encode_loop samples i ulawBuffer = encode_loop samples (i + 1) ?b"
      using True by (subst encode_loop.simps) simp
    also have "\<dots> = take (i + 1) ?b
        @ map (\<lambda>s. word_of_int (encodeMuLaw (sint s))) (drop (i + 1) samples)"
      using "1.IH" [OF True len] True by simp
    also have "take (i + 1) ?b
        = take i ulawBuffer @ [word_of_int (encodeMuLaw (sint (samples ! i)))]"
      using True "1.prems" by (simp add: store_byte_def take_Suc_conv_app_nth)
    finally show ?thesis using True by (simp add: Cons_nth_drop_Suc [symmetric])
  next
    case False
    then show ?thesis using "1.prems" by (subst encode_loop.simps) simp
  qed
qed

lemma encode_samples_map:
  "encode_samples samples = map (\<lambda>s. word_of_int (encodeMuLaw (sint s))) samples"
  by (simp add: encode_samples_def encode_loop_gen)

text \<open>
  Claim C9. The encoder maps the sample 0 to the byte \<open>0xFF\<close>, and the encoded output of
  a stream of \<open>n\<close> zero samples is \<open>n\<close> bytes \<open>0xFF\<close>.
\<close>

theorem silence_encodes_to_0xFF:
  "encodeMuLaw 0 = 0xFF \<and> encode_samples (replicate n 0) = replicate n 0xFF"
proof
  show "encodeMuLaw 0 = 0xFF" by (simp add: encodeMuLaw_0)
next
  have "encode_samples (replicate n 0)
          = replicate n (word_of_int (encodeMuLaw (sint (0 :: int16))))"
    by (simp only: encode_samples_map map_replicate)
  also have "\<dots> = replicate n 0xFF" by (simp add: encodeMuLaw_0)
  finally show "encode_samples (replicate n 0) = replicate n 0xFF" .
qed

text \<open>The threshold chain assigns \<open>exponent\<close> on every branch: its entry value is lost.\<close>

lemma threshold_chain_overwrites: "threshold_chain sample e = threshold_chain sample e'"
  by (simp add: threshold_chain_def)

text \<open>
  Claim C10. The exponent found by the \<open>for\<close> loop of \<open>encodeMuLaw\<close> is overwritten by
  the threshold chain whatever the sample, and \<open>encodeMuLaw\<close> equals the function obtained
  by removing the assignment \<open>exponent = 7\<close> and the loop.
\<close>

theorem exponent_loop_is_dead_code:
  "threshold_chain sample (exponent_loop sample 0 7) = threshold_chain sample e0
   \<and> encodeMuLaw = encodeMuLaw_noloop e0"
proof
  show "threshold_chain sample (exponent_loop sample 0 7) = threshold_chain sample e0"
    by (rule threshold_chain_overwrites)
  show "encodeMuLaw = encodeMuLaw_noloop e0"
  proof
    fix s
    have "threshold_chain x (exponent_loop x 0 7) = threshold_chain x e0" for x
      by (rule threshold_chain_overwrites)
    then show "encodeMuLaw s = encodeMuLaw_noloop e0 s"
      by (simp add: encodeMuLaw_def encodeMuLaw_noloop_def Let_def)
  qed
qed

section \<open>Properties of the format sniffer\<close>

lemma bit_e0: "bit (0xE0::byte) n \<longleftrightarrow> n = 7 \<or> n = 6 \<or> n = 5"
proof -
  have e0: "(0xE0::byte) = 2 ^ 7 OR 2 ^ 6 OR 2 ^ 5" by simp
  have "bit (2 ^ 7 OR 2 ^ 6 OR 2 ^ 5 :: byte) n \<longleftrightarrow> n = 7 \<or> n = 6 \<or> n = 5"
    by (simp only: bit_or_iff bit_exp_iff) auto
  then show ?thesis by (simp only: e0)
qed

lemma e0_decomp: "(b::byte) AND 0xE0 = 0xE0 \<longleftrightarrow> bit b 7 \<and> bit b 6 \<and> bit b 5"
proof
  assume h: "b AND 0xE0 = 0xE0"
  have "bit (b AND 0xE0) n = bit (0xE0::byte) n" for n
    using h by simp
  from this [of 7] this [of 6] this [of 5] show "bit b 7 \<and> bit b 6 \<and> bit b 5"
    by (simp only: bit_and_iff bit_e0) simp
next
  assume h: "bit b 7 \<and> bit b 6 \<and> bit b 5"
  show "b AND 0xE0 = 0xE0"
    using h by (intro bit_word_eqI) (auto simp only: bit_and_iff bit_e0)
qed

lemma top3_bits: "js_and (uint (b::byte)) 0xE0 = 0xE0 \<longleftrightarrow> bit b 7 \<and> bit b 6 \<and> bit b 5"
proof -
  have "uint b < 2 ^ 31" using uint_bounded [of b] by simp
  moreover have "- (2 ^ 31) \<le> uint b" by (rule order_trans [of _ 0]) simp_all
  ultimately have u: "toInt32 (uint b) = uint b" by (intro toInt32_small)
  have c: "toInt32 0xE0 = 0xE0" by (intro toInt32_small) simp_all
  have "js_and (uint b) 0xE0 = uint b AND uint (0xE0::byte)" by (simp add: js_and_def u c)
  also have "\<dots> = uint (b AND 0xE0)" by (simp only: uint_and)
  finally have "js_and (uint b) 0xE0 = 0xE0 \<longleftrightarrow> uint (b AND 0xE0) = uint (0xE0::byte)"
    by simp
  also have "\<dots> \<longleftrightarrow> b AND 0xE0 = 0xE0" by (simp only: word_uint_eq_iff)
  finally show ?thesis by (simp only: e0_decomp)
qed

text \<open>
  Claim C2. \<open>detectAudioFormat\<close> is total (no read of the buffer can throw) and decides
  in this order: fewer than 4 bytes give \<open>unknown\<close>; a start \<open>49 44 33\<close>, or a byte 0
  equal to \<open>0xFF\<close> with the top three bits of byte 1 set, gives \<open>mp3\<close>; a start
  \<open>52 49 46 46\<close> gives \<open>wav\<close>; every other buffer gives \<open>s16le\<close>.
\<close>

theorem detectAudioFormat_classification:
  "detectAudioFormat buffer =
     (if length buffer < 4 then ''unknown''
      else if take 3 buffer = [0x49, 0x44, 0x33]
              \<or> (buffer ! 0 = 0xFF
                  \<and> bit (buffer ! 1) 7 \<and> bit (buffer ! 1) 6 \<and> bit (buffer ! 1) 5)
           then ''mp3''
      else if take 4 buffer = [0x52, 0x49, 0x46, 0x46] then ''wav''
      else ''s16le'')"
proof (cases "length buffer < 4")
  case True
  then show ?thesis by (simp add: detectAudioFormat_def)
next
  case False
  then obtain a b c d rest where buf: "buffer = a # b # c # d # rest"
    by (cases buffer; cases "tl buffer"; cases "tl (tl buffer)"; cases "tl (tl (tl buffer))")
      auto
  show ?thesis
    unfolding buf
    by (simp add: detectAudioFormat_def byte_at_def number_of_elem_def top3_bits)
qed

section \<open>Properties of convertToUlaw\<close>

lemmas stub_defs = stub_system_def stub_fromBuffer_def stub_response_def stub_options_def
  riff_def id3_def wav8k_def

text \<open>A source format other than \<open>wav\<close> and \<open>unknown\<close> goes straight to ffmpeg.\<close>

lemma convertToUlaw_not_inprocess:
  "sourceFormat \<noteq> ''wav'' \<Longrightarrow> sourceFormat \<noteq> ''unknown'' \<Longrightarrow>
   convertToUlaw sys audioBuffer sourceFormat =
     ([Spawn ''ffmpeg'' (ffmpegArgs sourceFormat) audioBuffer],
      settle (spawn sys ''ffmpeg'' (ffmpegArgs sourceFormat) audioBuffer))"
  by (simp add: convertToUlaw_def convertToUlaw_try_def ffmpeg_path_def Let_def)

lemma detect_id3: "detectAudioFormat id3 = ''mp3''"
  by (simp add: detectAudioFormat_def byte_at_def id3_def)

text \<open>
  The body of the outer \<open>try\<close> always completes by returning: the \<open>catch\<close> of line 270,
  which would prefix \<open>Audio format conversion failed\<close>, is never entered.
\<close>

lemma convertToUlaw_try_returns:
  "\<exists>p. snd (convertToUlaw_try sys audioBuffer sourceFormat) = Returns p"
  by (simp add: convertToUlaw_try_def ffmpeg_path_def Let_def split: prod.splits sum.splits)

text \<open>
  The promise of the ffmpeg run resolves only on a \<open>close\<close> event with code 0; every
  other outcome rejects it, so a failing run is not swallowed.
\<close>

lemma settle_Resolved_iff:
  "settle outcome = Resolved b
     \<longleftrightarrow> (\<exists>chunks stderrOutput. outcome = Close (Some 0) chunks stderrOutput
                                \<and> b = concat chunks)"
  by (cases outcome) (auto simp add: settle_def)

text \<open>
  Claim C3, evaluated where it fails. The buffer starts with \<open>ID3\<close>, so its format is
  \<open>mp3\<close>, and ffmpeg exits with code 1. \<open>convertToUlaw\<close> is rejected with the error of the
  \<open>close\<close> handler as it is: the message is not wrapped in
  \<open>Audio format conversion failed\<close>.
\<close>

theorem ffmpeg_failure_not_wrapped:
  "detectAudioFormat id3 = ''mp3''
   \<and> convertToUlaw stub_system id3 ''mp3''
     = ([Spawn ''ffmpeg'' (ffmpegArgs ''mp3'') id3],
        Rejected (Error ''ffmpeg exited with code 1: Invalid data found when processing input''))
   \<and> \<not> str_includes ''ffmpeg exited with code 1: Invalid data found when processing input''
          ''Audio format conversion failed''"
  by (simp add: detect_id3 convertToUlaw_not_inprocess settle_def stub_system_def
      show_code_def show_nat.simps)

text \<open>
  Claim C4. For a buffer whose detected format is \<open>mp3\<close>, the only call
  \<open>convertToUlaw\<close> makes is one spawn of ffmpeg on the whole buffer; no method of
  \<open>WaveFile\<close> is called, and the result is what that process settles.
\<close>

theorem mp3_uses_ffmpeg_only:
  assumes "detectAudioFormat audioBuffer = ''mp3''"
  shows "fst (convertToUlaw sys audioBuffer (detectAudioFormat audioBuffer))
           = [Spawn ''ffmpeg'' (ffmpegArgs ''mp3'') audioBuffer]
         \<and> \<not> list_ex is_wavefile_call
               (fst (convertToUlaw sys audioBuffer (detectAudioFormat audioBuffer)))
         \<and> snd (convertToUlaw sys audioBuffer (detectAudioFormat audioBuffer))
           = settle (spawn sys ''ffmpeg'' (ffmpegArgs ''mp3'') audioBuffer)"
  unfolding assms by (simp add: convertToUlaw_not_inprocess)

theorem mp3_uses_ffmpeg_only_witness:
  "detectAudioFormat id3 = ''mp3''
   \<and> fst (convertToUlaw stub_system id3 (detectAudioFormat id3))
       = [Spawn ''ffmpeg''
            [''-i'', ''pipe:0'', ''-ar'', ''8000'', ''-ac'', ''1'', ''-acodec'', ''pcm_mulaw'',
             ''-f'', ''mulaw'', ''-af'', ''volume=2.0'', ''-loglevel'', ''error'', ''pipe:1'']
            id3]"
  using mp3_uses_ffmpeg_only [OF detect_id3, of stub_system]
  by (simp add: detect_id3 ffmpegArgs_def)

text \<open>
  Claim C5 as stated fails for the source format \<open>wav\<close>. The four bytes \<open>RIFF\<close> are
  detected as \<open>wav\<close>; \<open>fromBuffer\<close> throws on them; \<open>fromScratch\<close> is not called, the
  in-process decode ends with the exception, and the buffer goes to ffmpeg.
\<close>

theorem wav_parse_failure_no_raw_pcm_fallback:
  "detectAudioFormat riff = ''wav''
   \<and> fst (fromBuffer stub_system (new_WaveFile stub_system) riff)
       = Some (Error ''Not a supported format.'')
   \<and> load_wav stub_system riff ''wav''
       = ([WavFromBuffer riff], Inl (Error ''Not a supported format.''))
   \<and> \<not> list_ex is_fromScratch_call (fst (convertToUlaw stub_system riff ''wav''))"
  by (simp add: detectAudioFormat_def byte_at_def load_wav_def convertToUlaw_def
      convertToUlaw_try_def wavefile_path_def ffmpeg_path_def Let_def stub_defs)

text \<open>
  Claim C5, amended. When \<open>fromBuffer\<close> throws on the in-process path: for the source
  format \<open>unknown\<close> the loader calls \<open>fromScratch(1, 24000, '16', audioBuffer)\<close> on the
  whole buffer (one channel, 24000 Hz, 16 bits) and goes on with the object it yields;
  for the source format \<open>wav\<close> the in-process decode ends with the exception.
\<close>

theorem parse_failure_fallback_only_for_unknown:
  assumes "fromBuffer sys (new_WaveFile sys) audioBuffer = (Some e, wav)"
  shows "load_wav sys audioBuffer ''unknown''
           = ([WavFromBuffer audioBuffer, WavFromScratch 1 24000 ''16'' audioBuffer],
              (case fromScratch sys wav 1 24000 ''16'' audioBuffer of
                 (None, wav') \<Rightarrow> Inr wav' | (Some e', wav') \<Rightarrow> Inl e'))
         \<and> load_wav sys audioBuffer ''wav'' = ([WavFromBuffer audioBuffer], Inl e)"
  using assms by (simp add: load_wav_def Let_def split: prod.splits option.splits)

theorem parse_failure_fallback_only_for_unknown_witness:
  "fromBuffer stub_system (new_WaveFile stub_system) [1, 2]
     = (Some (Error ''Not a supported format.''), (0, []))
   \<and> load_wav stub_system [1, 2] ''unknown''
       = ([WavFromBuffer [1, 2], WavFromScratch 1 24000 ''16'' [1, 2]], Inr (24000, []))"
proof -
  have h: "fromBuffer stub_system (new_WaveFile stub_system) [1, 2]
             = (Some (Error ''Not a supported format.''), (0, []))"
    by (simp add: stub_defs)
  have "fromScratch stub_system (0, []) 1 24000 ''16'' [1, 2] = (None, (24000, []))"
    by (simp add: stub_defs)
  then show ?thesis using h parse_failure_fallback_only_for_unknown [OF h] by simp
qed

text \<open>The in-process path spawns no process.\<close>

lemma spawn_args_append: "spawn_args (xs @ ys) = spawn_args xs @ spawn_args ys"
  by (induction xs rule: spawn_args.induct) simp_all

lemma spawn_args_load_wav: "spawn_args (fst (load_wav sys b f)) = []"
  by (simp add: load_wav_def Let_def split: prod.splits option.splits)

lemma spawn_args_resample: "spawn_args (fst (resample_if_needed sys w)) = []"
  by (simp add: resample_if_needed_def split: prod.splits option.splits)

lemma spawn_args_wavefile_path: "spawn_args (fst (wavefile_path sys b f)) = []"
proof -
  obtain ev1 r1 where l: "load_wav sys b f = (ev1, r1)" by (cases "load_wav sys b f")
  have e1: "spawn_args ev1 = []" using spawn_args_load_wav [of sys b f] by (simp add: l)
  show ?thesis
  proof (cases r1)
    case (Inl e)
    then show ?thesis by (simp add: wavefile_path_def l e1)
  next
    case (Inr w)
    obtain ev2 r2 where r: "resample_if_needed sys w = (ev2, r2)"
      by (cases "resample_if_needed sys w")
    have e2: "spawn_args ev2 = []" using spawn_args_resample [of sys w] by (simp add: r)
    show ?thesis
      by (simp add: wavefile_path_def l Inr r e1 e2 spawn_args_append split: sum.splits)
  qed
qed

text \<open>
  Claim C6 as stated fails for the source format \<open>s16le\<close>. Four zero bytes are detected
  as \<open>s16le\<close>, and the argument list of the ffmpeg run has no \<open>volume=2.0\<close> filter.
\<close>

theorem s16le_invocation_has_no_gain:
  "spawn_args (fst (convertToUlaw stub_system [0, 0, 0, 0] (detectAudioFormat [0, 0, 0, 0])))
     = [(''ffmpeg'', [''-f'', ''s16le'', ''-ar'', ''24000'', ''-ac'', ''1'', ''-i'', ''pipe:0'',
         ''-ar'', ''8000'', ''-ac'', ''1'', ''-acodec'', ''pcm_mulaw'', ''-f'', ''mulaw'',
         ''-loglevel'', ''error'', ''pipe:1''])]
   \<and> ''volume=2.0'' \<notin> set (ffmpegArgs ''s16le'')"
  by (simp add: detectAudioFormat_def byte_at_def number_of_elem_def convertToUlaw_def
      convertToUlaw_try_def ffmpeg_path_def ffmpegArgs_def Let_def)

text \<open>
  Claim C6, amended. A run of \<open>convertToUlaw\<close> spawns no process when the in-process
  path returned a buffer, and otherwise exactly one, \<open>ffmpeg\<close>, whose arguments always
  hold the output options for 8000 Hz, one channel and mu-law; the filter \<open>volume=2.0\<close>
  is among them exactly when the source format is not \<open>s16le\<close>, for which the arguments
  instead declare the input as raw 16-bit PCM at 24000 Hz, one channel.
\<close>

theorem ffmpeg_invocation_arguments:
  "spawn_args (fst (convertToUlaw sys audioBuffer sourceFormat))
     = (if (sourceFormat = ''wav'' \<or> sourceFormat = ''unknown'')
           \<and> \<not> isl (snd (wavefile_path sys audioBuffer sourceFormat))
        then []
        else [(''ffmpeg'',
               (if sourceFormat = ''s16le''
                then [''-f'', ''s16le'', ''-ar'', ''24000'', ''-ac'', ''1''] else [])
               @ [''-i'', ''pipe:0''] @ output_options
               @ (if sourceFormat = ''s16le'' then [] else [''-af'', ''volume=2.0''])
               @ [''-loglevel'', ''error'', ''pipe:1''])])"
proof -
  obtain ev r where w: "wavefile_path sys audioBuffer sourceFormat = (ev, r)"
    by (cases "wavefile_path sys audioBuffer sourceFormat")
  have e: "spawn_args ev = []"
    using spawn_args_wavefile_path [of sys audioBuffer sourceFormat] by (simp add: w)
  show ?thesis
    by (cases r)
      (simp_all add: convertToUlaw_def convertToUlaw_try_def ffmpeg_path_def ffmpegArgs_def
        output_options_def Let_def w e spawn_args_append)
qed

lemma no_resample_load_wav: "\<not> list_ex is_resample_call (fst (load_wav sys b f))"
  by (simp add: load_wav_def Let_def split: prod.splits option.splits)

text \<open>
  Claim C8. On the in-process path, when the loaded object reports the sample rate 8000,
  \<open>toSampleRate\<close> is not called, and the bytes returned are the codes of the samples that
  \<open>getSamples\<close> reads from that very object (its first channel), in order.
\<close>

theorem rate_8000_is_not_resampled:
  assumes "sourceFormat = ''wav'' \<or> sourceFormat = ''unknown''"
    and "load_wav sys audioBuffer sourceFormat = (ev, Inr wav)"
    and "fmt_sampleRate sys wav = 8000"
    and "getSamples sys wav = Inr decoded"
  shows "convertToUlaw sys audioBuffer sourceFormat
           = (ev @ [WavGetSamples], Resolved (encode_samples (first_channel decoded)))
         \<and> \<not> list_ex is_resample_call (fst (convertToUlaw sys audioBuffer sourceFormat))"
proof -
  have r: "resample_if_needed sys wav = ([], Inr wav)"
    using assms(3) by (simp add: resample_if_needed_def)
  have w: "wavefile_path sys audioBuffer sourceFormat
             = (ev @ [WavGetSamples], Inr (encode_samples (first_channel decoded)))"
    by (simp add: wavefile_path_def assms(2) r assms(4))
  have c: "convertToUlaw sys audioBuffer sourceFormat
             = (ev @ [WavGetSamples], Resolved (encode_samples (first_channel decoded)))"
    using assms(1) by (simp add: convertToUlaw_def convertToUlaw_try_def w)
  have "\<not> list_ex is_resample_call ev"
    using no_resample_load_wav [of sys audioBuffer sourceFormat] by (simp add: assms(2))
  then show ?thesis by (simp add: c)
qed

lemma load_wav8k:
  "load_wav stub_system wav8k ''wav'' = ([WavFromBuffer wav8k], Inr (8000, [0, 0]))"
  by (simp add: load_wav_def Let_def stub_defs nth_append)

theorem rate_8000_is_not_resampled_witness:
  "load_wav stub_system wav8k ''wav'' = ([WavFromBuffer wav8k], Inr (8000, [0, 0]))
   \<and> fmt_sampleRate stub_system (8000, [0, 0]) = 8000
   \<and> getSamples stub_system (8000, [0, 0]) = Inr (Mono [0, 0])
   \<and> convertToUlaw stub_system wav8k ''wav''
       = ([WavFromBuffer wav8k, WavGetSamples], Resolved (encode_samples [0, 0]))"
proof -
  have a: "fmt_sampleRate stub_system (8000, [0, 0]) = 8000"
    by (simp add: stub_system_def)
  have b: "getSamples stub_system (8000, [0, 0]) = Inr (Mono [0, 0])"
    by (simp add: stub_system_def)
  show ?thesis
    using rate_8000_is_not_resampled [OF disjI1 [OF refl] load_wav8k a b] load_wav8k a b
    by (simp add: first_channel_def)
qed

section \<open>Properties of sarvamTTS\<close>

text \<open>
  Claim C7. When the API key is set, the provider answers with \<open>ok\<close> and a non-empty
  first audio string, and \<open>skipConversion\<close> is truthy, \<open>sarvamTTS\<close> resolves with the
  decoded provider buffer itself; the only call of the run is the HTTP request, so neither
  \<open>WaveFile\<close> nor ffmpeg is used.
\<close>

theorem skipConversion_returns_raw_buffer:
  assumes "SARVAM_API_KEY sys = Some apiKey" and "apiKey \<noteq> []"
    and "nodeFetch sys (build_request sys apiKey text opts) = Inr response"
    and "ok response"
    and "json_audios response = Inr (Some (base64Audio # rest))" and "base64Audio \<noteq> []"
    and "truthy (skipConversion opts)"
  shows "sarvamTTS sys text opts
           = ([Fetch (build_request sys apiKey text opts)],
              Resolved (base64_decode sys base64Audio))
         \<and> \<not> list_ex is_wavefile_call (fst (sarvamTTS sys text opts))
         \<and> spawn_args (fst (sarvamTTS sys text opts)) = []"
  using assms by (simp add: sarvamTTS_def sarvamTTS_try_def base64Audio_of_def Let_def)

theorem skipConversion_returns_raw_buffer_witness:
  "SARVAM_API_KEY stub_system = Some ''test-key''
   \<and> nodeFetch stub_system (build_request stub_system ''test-key'' ''hello'' stub_options)
       = Inr stub_response
   \<and> ok stub_response
   \<and> json_audios stub_response = Inr (Some [''SUQzBA==''])
   \<and> truthy (skipConversion stub_options)
   \<and> sarvamTTS stub_system ''hello'' stub_options
       = ([Fetch (build_request stub_system ''test-key'' ''hello'' stub_options)],
          Resolved id3)"
proof -
  have k: "SARVAM_API_KEY stub_system = Some ''test-key''" by (simp add: stub_system_def)
  have f: "nodeFetch stub_system (build_request stub_system ''test-key'' ''hello'' stub_options)
             = Inr stub_response"
    by (simp add: stub_system_def)
  have o: "ok stub_response" by (simp add: stub_response_def)
  have j: "json_audios stub_response = Inr (Some [''SUQzBA==''])"
    by (simp add: stub_response_def)
  have t: "truthy (skipConversion stub_options)" by (simp add: stub_options_def truthy_def)
  have "sarvamTTS stub_system ''hello'' stub_options
     = ([Fetch (build_request stub_system ''test-key'' ''hello'' stub_options)],
        Resolved (base64_decode stub_system ''SUQzBA==''))"
    using skipConversion_returns_raw_buffer [OF k _ f o j _ t] by simp
  then show ?thesis using k f o j t by (simp add: stub_system_def)
qed

end
